theory Spec2Isabelle
  imports Main
begin

section \<open>JavaScript values and plain objects\<close>

text \<open>
  The guides are TypeScript; at run time a DTO or a request body is a plain JavaScript
  object. Values are the primitives a JSON body and the services produce. Numbers are
  modelled by the integers (every identifier the services compute is one) together with
  NaN, the one number that is not strictly equal to itself; fractions and nested objects
  are left out.
\<close>

datatype jsval = JUndefined | JNull | JBool bool | JNum int | JNaN | JStr string

text \<open>
  A plain object is a finite map from property names to values: the order of the
  properties is not kept (no operation below reads it), and two objects are deep-equal
  exactly when they are the same map. A property that is absent reads as \<open>undefined\<close>.
\<close>

type_synonym obj = "string \<rightharpoonup> jsval"

text \<open>The operator \<^verbatim>\<open>===\<close> on primitives.\<close>

definition strict_eq :: "jsval \<Rightarrow> jsval \<Rightarrow> bool" where
  "strict_eq a b = (a = b \<and> a \<noteq> JNaN)"

text \<open>Property read \<^verbatim>\<open>o.k\<close>.\<close>

definition get_field :: "obj \<Rightarrow> string \<Rightarrow> jsval" where
  "get_field ob k = (case ob k of None \<Rightarrow> JUndefined | Some v \<Rightarrow> v)"

text \<open>Property write \<^verbatim>\<open>o.k = v\<close>.\<close>

definition set_field :: "string \<Rightarrow> jsval \<Rightarrow> obj \<Rightarrow> obj" where
  "set_field k v ob = ob(k \<mapsto> v)"

text \<open>
  Object spread \<^verbatim>\<open>{ ...a, ...b }\<close>: a fresh object with the properties of \<open>a\<close>,
  overwritten and extended by those of \<open>b\<close>.
\<close>

definition spread :: "obj \<Rightarrow> obj \<Rightarrow> obj" where
  "spread a b = a ++ b"

text \<open>
  Rest destructuring \<^verbatim>\<open>const { k, ...result } = o\<close>: every own property but \<open>k\<close>.
\<close>

definition omit_field :: "string \<Rightarrow> obj \<Rightarrow> obj" where
  "omit_field k ob = ob(k := None)"

text \<open>The names of an object's own properties.\<close>

definition own_keys :: "obj \<Rightarrow> string set" where
  "own_keys ob = dom ob"

section \<open>ItemsService: the in-memory collection (Nest-CRUD.md)\<close>

text \<open>
  The service's state is the array \<^verbatim>\<open>items\<close>; every operation takes it and returns
  the array it leaves behind together with its result. The TypeScript types are erased at
  run time, so an identifier passed in is any value; the comparisons are those of the
  source (\<^verbatim>\<open>item.id === id\<close>, \<^verbatim>\<open>item.id !== id\<close>).
\<close>

text \<open>The callback \<^verbatim>\<open>item => item.id === id\<close>.\<close>

definition id_is :: "jsval \<Rightarrow> obj \<Rightarrow> bool" where
  "id_is ident item = strict_eq (get_field item ''id'') ident"

text \<open>
  \<^verbatim>\<open>create\<close> writes \<^verbatim>\<open>items.length + 1\<close> into the item it was given, pushes that very
  object and returns it.
\<close>

definition create :: "obj list \<Rightarrow> obj \<Rightarrow> obj list \<times> obj" where
  "create items item =
     (let item' = set_field ''id'' (JNum (int (length items) + 1)) item
      in (items @ [item'], item'))"

definition findAll :: "obj list \<Rightarrow> obj list" where
  "findAll items = items"

text \<open>\<^verbatim>\<open>Array.prototype.find\<close>: the first match, or \<open>undefined\<close> (here \<open>None\<close>).\<close>

definition findOne :: "obj list \<Rightarrow> jsval \<Rightarrow> obj option" where
  "findOne items ident = find (id_is ident) items"

text \<open>\<^verbatim>\<open>Array.prototype.findIndex\<close>: the first index that matches; \<open>-1\<close> is \<open>None\<close>.\<close>

fun findIndex :: "('a \<Rightarrow> bool) \<Rightarrow> 'a list \<Rightarrow> nat option" where
  "findIndex P [] = None"
| "findIndex P (x # xs) = (if P x then Some 0 else map_option Suc (findIndex P xs))"

text \<open>
  \<^verbatim>\<open>update\<close> returns \<open>null\<close> (here \<open>None\<close>) when no index is found; otherwise it stores
  the spread of the old entity and the given fields at that index and returns it.
\<close>

definition update :: "obj list \<Rightarrow> jsval \<Rightarrow> obj \<Rightarrow> obj list \<times> obj option" where
  "update items ident updatedItem =
     (case findIndex (id_is ident) items of
        None \<Rightarrow> (items, None)
      | Some itemIndex \<Rightarrow>
          (let items' = items[itemIndex := spread (items ! itemIndex) updatedItem]
           in (items', Some (items' ! itemIndex))))"

text \<open>\<^verbatim>\<open>remove\<close> keeps the items with \<^verbatim>\<open>item.id !== id\<close> and compares the lengths.\<close>

definition remove :: "obj list \<Rightarrow> jsval \<Rightarrow> obj list \<times> bool" where
  "remove items ident =
     (let initialLength = length items;
          items' = filter (\<lambda>item. \<not> id_is ident item) items
      in (items', length items' < initialLength))"

text \<open>
  A history of the collection: the requests served so far, oldest first. \<open>run_ops\<close>
  threads the array through them and also keeps, in order, every entity \<^verbatim>\<open>create\<close>
  returned, so that identifiers can be compared over the collection's lifetime.
\<close>

datatype op = Create obj | Delete jsval

fun run_ops :: "op list \<Rightarrow> obj list \<times> obj list \<Rightarrow> obj list \<times> obj list" where
  "run_ops [] st = st"
| "run_ops (Create item # ops) (items, created) =
     run_ops ops (fst (create items item), created @ [snd (create items item)])"
| "run_ops (Delete ident # ops) (items, created) =
     run_ops ops (fst (remove items ident), created)"

text \<open>
  A history that the transport layer can produce from the empty collection: two items are
  added and the first is deleted, which leaves one entity, with identifier 2, in a
  collection of size 1.
\<close>

definition collision_history :: "op list" where
  "collision_history =
     [Create [''name'' \<mapsto> JStr ''a''], Create [''name'' \<mapsto> JStr ''b''], Delete (JNum 1)]"

section \<open>Users and AuthService (the JWT guide)\<close>

text \<open>
  A stored user document, as the schema class \<^verbatim>\<open>User\<close> declares it (\<^verbatim>\<open>username\<close> and
  \<^verbatim>\<open>password\<close>, both strings) together with the \<^verbatim>\<open>_id\<close> the store gives every
  document. The collection is the list of its documents.
\<close>

record user =
  user_id :: string
  username :: string
  password :: string

text \<open>
  \<^verbatim>\<open>toObject()\<close>: the document as a plain object. The store's version key is not
  modelled.
\<close>

definition toObject :: "user \<Rightarrow> obj" where
  "toObject u =
     [''_id'' \<mapsto> JStr (user_id u), ''username'' \<mapsto> JStr (username u),
      ''password'' \<mapsto> JStr (password u)]"

text \<open>
  The ways a registration can fail. \<open>DuplicateKey\<close> is the store's own rejection of a
  document whose unique field is already taken. \<open>Conflict\<close> is the conflict that the spec
  names for a duplicate registration; no code of the guide raises it, and none turns
  another failure into it.
\<close>

datatype error = DuplicateKey | Conflict

text \<open>
  Modelled from the spec: \<^verbatim>\<open>save()\<close> of the document store (Mongoose over MongoDB),
  whose code is not in the repository, under the unique index that
  \<^verbatim>\<open>@Prop({ unique: true })\<close> declares on \<^verbatim>\<open>username\<close>. A document whose username a
  stored document already has is refused with the duplicate-key error; any other document
  is appended to the collection.
\<close>

definition save :: "user list \<Rightarrow> user \<Rightarrow> error + user list" where
  "save users doc =
     (if \<exists>u \<in> set users. username u = username doc then Inl DuplicateKey
      else Inr (users @ [doc]))"

text \<open>
  \<^verbatim>\<open>UsersService.create\<close>: \<^verbatim>\<open>new this.userModel(user)\<close> builds a document from the
  given fields (the fresh \<^verbatim>\<open>_id\<close> is a parameter) and \<^verbatim>\<open>save()\<close> stores it. A
  rejection of \<^verbatim>\<open>save()\<close> is not caught; on success the saved document is returned as
  it is.
\<close>

definition users_create ::
    "string \<Rightarrow> user list \<Rightarrow> string \<Rightarrow> string \<Rightarrow> error + (user list \<times> user)" where
  "users_create new_id users uname pw =
     (let newUser = \<lparr>user_id = new_id, username = uname, password = pw\<rparr>
      in (case save users newUser of
            Inl e \<Rightarrow> Inl e
          | Inr users' \<Rightarrow> Inr (users', newUser)))"

text \<open>\<^verbatim>\<open>UsersService.findByUsername\<close>: \<^verbatim>\<open>findOne({ username })\<close>, a document or \<open>null\<close>.\<close>

definition findByUsername :: "user list \<Rightarrow> string \<Rightarrow> user option" where
  "findByUsername users uname = find (\<lambda>u. username u = uname) users"

text \<open>
  \<^verbatim>\<open>AuthService.register\<close>. The library call \<^verbatim>\<open>bcrypt.hash(password, 10)\<close> is the
  parameter \<open>hash\<close>, applied to the secret and the work factor; the salt it draws is
  part of that parameter. The method has no handler: what \<^verbatim>\<open>UsersService.create\<close>
  yields, a document or a failure, is what it yields.
\<close>

definition register ::
    "(string \<Rightarrow> nat \<Rightarrow> string) \<Rightarrow> string \<Rightarrow> user list \<Rightarrow> string \<Rightarrow> string
      \<Rightarrow> error + (user list \<times> user)" where
  "register hash new_id users uname pw =
     (let hashed = hash pw 10 in users_create new_id users uname hashed)"

text \<open>
  \<^verbatim>\<open>AuthController.register\<close> hands the two fields of the body to the service and
  returns what the service returns; the framework serialises that document as the body
  of the response.
\<close>

definition register_route ::
    "(string \<Rightarrow> nat \<Rightarrow> string) \<Rightarrow> string \<Rightarrow> user list \<Rightarrow> string \<Rightarrow> string
      \<Rightarrow> error + (user list \<times> obj)" where
  "register_route hash new_id users body_username body_password =
     (case register hash new_id users body_username body_password of
        Inl e \<Rightarrow> Inl e
      | Inr (users', saved) \<Rightarrow> Inr (users', toObject saved))"

text \<open>
  \<^verbatim>\<open>AuthService.validateUser\<close>. The library call \<^verbatim>\<open>bcrypt.compare\<close> is the parameter
  \<open>compare\<close>; \<open>null\<close> is \<open>None\<close>.
\<close>

definition validateUser ::
    "(string \<Rightarrow> string \<Rightarrow> bool) \<Rightarrow> user list \<Rightarrow> string \<Rightarrow> string \<Rightarrow> obj option" where
  "validateUser compare users uname pw =
     (case findByUsername users uname of
        None \<Rightarrow> None
      | Some u \<Rightarrow>
          if compare pw (password u) then Some (omit_field ''password'' (toObject u))
          else None)"

section \<open>Tokens\<close>

text \<open>
  A token, decoded: the claims it carries and its signature. The signing function of the
  library (a keyed MAC over the encoded claims) is the parameter \<open>mac\<close>; time is in
  seconds.
\<close>

record 'tag token =
  payload :: obj
  signature :: 'tag

text \<open>
  Modelled from the spec: \<^verbatim>\<open>JwtService.sign\<close> of the library \<^verbatim>\<open>@nestjs/jwt\<close>, whose
  code is not in the repository. It adds the issuance time and the expiry (issuance plus
  the horizon) to the claims and signs the result with the key.
\<close>

definition sign ::
    "(string \<Rightarrow> obj \<Rightarrow> 'tag) \<Rightarrow> string \<Rightarrow> int \<Rightarrow> int \<Rightarrow> obj \<Rightarrow> 'tag token" where
  "sign mac secret expiresIn now claims =
     (let body = set_field ''exp'' (JNum (now + expiresIn)) (set_field ''iat'' (JNum now) claims)
      in \<lparr>payload = body, signature = mac secret body\<rparr>)"

text \<open>
  Modelled from the spec: the verification that the library \<^verbatim>\<open>passport-jwt\<close> runs before
  it calls \<^verbatim>\<open>validate\<close>, whose code is not in the repository. It checks the signature
  against the key, then the expiry; on success it yields the claims.
\<close>

definition verify ::
    "(string \<Rightarrow> obj \<Rightarrow> 'tag) \<Rightarrow> string \<Rightarrow> int \<Rightarrow> 'tag token \<Rightarrow> obj option" where
  "verify mac secret now tok =
     (if signature tok \<noteq> mac secret (payload tok) then None
      else (case get_field (payload tok) ''exp'' of
              JNum e \<Rightarrow> if e \<le> now then None else Some (payload tok)
            | JUndefined \<Rightarrow> Some (payload tok)
            | _ \<Rightarrow> None))"

text \<open>
  \<^verbatim>\<open>AuthService.login\<close>, with the options of \<^verbatim>\<open>JwtModule.register\<close>: the secret
  \<^verbatim>\<open>'jwt_secret'\<close> and \<^verbatim>\<open>expiresIn: '1h'\<close>, 3600 seconds.
\<close>

record 'tag login_result =
  access_token :: "'tag token"

definition login :: "(string \<Rightarrow> obj \<Rightarrow> 'tag) \<Rightarrow> int \<Rightarrow> obj \<Rightarrow> 'tag login_result" where
  "login mac now u =
     (let claims = [''username'' \<mapsto> get_field u ''username'', ''sub'' \<mapsto> get_field u ''_id'']
      in \<lparr>access_token = sign mac ''jwt_secret'' 3600 now claims\<rparr>)"

text \<open>\<^verbatim>\<open>JwtStrategy.validate\<close>: what the guard attaches to the request.\<close>

definition validate :: "obj \<Rightarrow> obj" where
  "validate p = [''userId'' \<mapsto> get_field p ''sub'', ''username'' \<mapsto> get_field p ''username'']"

text \<open>
  \<^verbatim>\<open>JwtStrategy\<close> as the guard runs it: verification under the strategy's own
  \<^verbatim>\<open>secretOrKey: 'jwt_secret'\<close>, then \<^verbatim>\<open>validate\<close>; \<open>None\<close> is the rejection.
\<close>

definition jwt_guard :: "(string \<Rightarrow> obj \<Rightarrow> 'tag) \<Rightarrow> int \<Rightarrow> 'tag token \<Rightarrow> obj option" where
  "jwt_guard mac now tok = map_option validate (verify mac ''jwt_secret'' now tok)"

section \<open>Objects: what reading a written or spread object gives\<close>

lemma get_set_field: "get_field (set_field k v ob) k' = (if k' = k then v else get_field ob k')"
  by (simp add: get_field_def set_field_def)

lemma get_spread:
  "get_field (spread a b) k = (if k \<in> own_keys b then get_field b k else get_field a k)"
  by (auto simp: get_field_def spread_def own_keys_def map_add_def split: option.splits)

lemma own_keys_spread: "own_keys (spread a b) = own_keys a \<union> own_keys b"
  by (auto simp: spread_def own_keys_def)

section \<open>The operations of the collection without their local bindings\<close>

lemma create_eq:
  "create items item =
     (items @ [item(''id'' \<mapsto> JNum (int (length items) + 1))],
      item(''id'' \<mapsto> JNum (int (length items) + 1)))"
  by (simp add: create_def Let_def set_field_def)

lemma remove_eq:
  "remove items ident =
     (filter (\<lambda>item. \<not> id_is ident item) items,
      length (filter (\<lambda>item. \<not> id_is ident item) items) < length items)"
  by (simp add: remove_def Let_def)

lemma find_append_None: "find P xs = None \<Longrightarrow> find P (xs @ ys) = find P ys"
  by (induction xs) (auto split: if_splits)

lemma findIndex_None: "(findIndex P xs = None) = (\<not> (\<exists>x \<in> set xs. P x))"
  by (induction xs) auto

lemma findIndex_Some:
  "findIndex P xs = Some i \<Longrightarrow> i < length xs \<and> P (xs ! i) \<and> (\<forall>j < i. \<not> P (xs ! j))"
proof (induction xs arbitrary: i)
  case Nil
  then show ?case by simp
next
  case (Cons x xs)
  show ?case
  proof (cases "P x")
    case True
    with Cons.prems show ?thesis by simp
  next
    case False
    with Cons.prems obtain i' where i': "findIndex P xs = Some i'" "i = Suc i'"
      by auto
    from Cons.IH [OF i'(1)] False i'(2) show ?thesis
      by (auto simp: nth_Cons split: nat.splits)
  qed
qed

lemma update_found:
  "findIndex (id_is ident) items = Some i \<Longrightarrow>
     update items ident partial
       = (items[i := spread (items ! i) partial], Some (spread (items ! i) partial))"
  using findIndex_Some [of "id_is ident" items i]
  by (simp add: update_def Let_def)

lemma update_not_found:
  "findIndex (id_is ident) items = None \<Longrightarrow> update items ident partial = (items, None)"
  by (simp add: update_def)

lemma findOne_None: "(findOne items ident = None) = (\<forall>j < length items. \<not> id_is ident (items ! j))"
  by (auto simp: findOne_def find_None_iff in_set_conv_nth)

lemma run_collision_history:
  "run_ops collision_history ([], []) =
     ([[''name'' \<mapsto> JStr ''b'', ''id'' \<mapsto> JNum 2]],
      [[''name'' \<mapsto> JStr ''a'', ''id'' \<mapsto> JNum 1], [''name'' \<mapsto> JStr ''b'', ''id'' \<mapsto> JNum 2]])"
  by (simp add: collision_history_def create_eq remove_eq id_is_def
      strict_eq_def get_field_def)

section \<open>Create, find, delete\<close>

text \<open>
  C1, as amended. \<^verbatim>\<open>findOne\<close> returns the first stored entity with the identifier it
  is given. So: for every state of the collection in which no stored entity already has
  the identifier size + 1, and for every input record \<open>X\<close>, \<^verbatim>\<open>create\<close> assigns that
  identifier, and \<^verbatim>\<open>findOne\<close> with it returns the entity \<^verbatim>\<open>create\<close> stored, which
  is \<open>X\<close> with its \<open>id\<close> set to the assigned identifier.
\<close>

theorem create_then_findOne:
  "findOne items (JNum (int (length items) + 1)) = None \<Longrightarrow>
     get_field (snd (create items X)) ''id'' = JNum (int (length items) + 1)
     \<and> findOne (fst (create items X)) (get_field (snd (create items X)) ''id'')
         = Some (snd (create items X))
     \<and> snd (create items X) = X(''id'' \<mapsto> JNum (int (length items) + 1))"
  by (simp add: create_eq findOne_def find_append_None
      id_is_def strict_eq_def get_field_def)

theorem create_then_findOne_witness:
  "findOne [[''name'' \<mapsto> JStr ''a'', ''id'' \<mapsto> JNum 1], [''name'' \<mapsto> JStr ''b'', ''id'' \<mapsto> JNum 2]]
       (JNum 3) = None
   \<and> findOne
        (fst (create
           [[''name'' \<mapsto> JStr ''a'', ''id'' \<mapsto> JNum 1], [''name'' \<mapsto> JStr ''b'', ''id'' \<mapsto> JNum 2]]
           [''name'' \<mapsto> JStr ''c'']))
        (JNum 3)
       = Some [''name'' \<mapsto> JStr ''c'', ''id'' \<mapsto> JNum 3]"
proof -
  let ?items =
    "[[''name'' \<mapsto> JStr ''a'', ''id'' \<mapsto> JNum 1], [''name'' \<mapsto> JStr ''b'', ''id'' \<mapsto> JNum 2]]"
  have free: "findOne ?items (JNum (int (length ?items) + 1)) = None"
    by (simp add: findOne_def id_is_def strict_eq_def get_field_def)
  from create_then_findOne [OF free, of "[''name'' \<mapsto> JStr ''c'']"] free
  show ?thesis by auto
qed

text \<open>
  C1 as stated fails after a deletion. In the collection that \<open>collision_history\<close>
  leaves, \<^verbatim>\<open>create\<close> of the record with name c assigns the identifier 2, which the
  older entity with name b already has, and \<^verbatim>\<open>findOne\<close> with 2 returns that older
  entity and not the record just created.
\<close>

theorem create_then_findOne_counterexample:
  "findOne (fst (create (fst (run_ops collision_history ([], []))) [''name'' \<mapsto> JStr ''c'']))
       (get_field (snd (create (fst (run_ops collision_history ([], [])))
           [''name'' \<mapsto> JStr ''c''])) ''id'')
     = Some [''name'' \<mapsto> JStr ''b'', ''id'' \<mapsto> JNum 2]
   \<and> snd (create (fst (run_ops collision_history ([], []))) [''name'' \<mapsto> JStr ''c''])
     = [''name'' \<mapsto> JStr ''c'', ''id'' \<mapsto> JNum 2]
   \<and> [''name'' \<mapsto> JStr ''b'', ''id'' \<mapsto> JNum 2] \<noteq> [''name'' \<mapsto> JStr ''c'', ''id'' \<mapsto> JNum 2]"
proof -
  have "[''name'' \<mapsto> JStr ''b'', ''id'' \<mapsto> JNum 2] ''name''
      \<noteq> [''name'' \<mapsto> JStr ''c'', ''id'' \<mapsto> JNum (2::int)] ''name''"
    by simp
  then have "[''name'' \<mapsto> JStr ''b'', ''id'' \<mapsto> JNum 2] \<noteq> [''name'' \<mapsto> JStr ''c'', ''id'' \<mapsto> JNum 2]"
    by metis
  then show ?thesis
    by (simp add: run_collision_history create_eq findOne_def id_is_def
      strict_eq_def get_field_def)
qed

text \<open>
  C2. \<^verbatim>\<open>create\<close> appends the entity it returns to the end of the sequence; that entity
  is the given record with \<open>id\<close> set to the size of the collection before the call plus
  one. Consequently there is a history of creations and deletions, starting from the empty
  collection, in which two different entities returned by \<^verbatim>\<open>create\<close> got the same
  identifier (here both are even still stored), which a maximum-plus-one scheme rules out.
\<close>

theorem create_assigns_length_plus_one:
  "fst (create items item) = items @ [snd (create items item)]
   \<and> snd (create items item) = item(''id'' \<mapsto> JNum (int (length items) + 1))
   \<and> get_field (snd (create items item)) ''id'' = JNum (int (length items) + 1)
   \<and> (\<exists>ops i j. i < j \<and> j < length (snd (run_ops ops ([], [])))
         \<and> snd (run_ops ops ([], [])) ! i \<noteq> snd (run_ops ops ([], [])) ! j
         \<and> get_field (snd (run_ops ops ([], [])) ! i) ''id''
             = get_field (snd (run_ops ops ([], [])) ! j) ''id''
         \<and> snd (run_ops ops ([], [])) ! i \<in> set (fst (run_ops ops ([], [])))
         \<and> snd (run_ops ops ([], [])) ! j \<in> set (fst (run_ops ops ([], []))))"
proof -
  let ?b = "[''name'' \<mapsto> JStr ''b'', ''id'' \<mapsto> JNum 2]"
  let ?c = "[''name'' \<mapsto> JStr ''c'', ''id'' \<mapsto> JNum 2]"
  let ?ops = "[Create [''name'' \<mapsto> JStr ''a''], Create [''name'' \<mapsto> JStr ''b''],
               Delete (JNum 1), Create [''name'' \<mapsto> JStr ''c'']]"
  have run: "run_ops ?ops ([], []) =
      ([?b, ?c], [[''name'' \<mapsto> JStr ''a'', ''id'' \<mapsto> JNum 1], ?b, ?c])"
    by (simp add: create_eq remove_eq id_is_def strict_eq_def get_field_def)
  have "?b ''name'' \<noteq> ?c ''name''" by simp
  then have ne: "?b \<noteq> ?c" by metis
  have same: "get_field ?b ''id'' = get_field ?c ''id''"
    by (simp add: get_field_def)
  have collide: "\<exists>ops i j. i < j \<and> j < length (snd (run_ops ops ([], [])))
         \<and> snd (run_ops ops ([], [])) ! i \<noteq> snd (run_ops ops ([], [])) ! j
         \<and> get_field (snd (run_ops ops ([], [])) ! i) ''id''
             = get_field (snd (run_ops ops ([], [])) ! j) ''id''
         \<and> snd (run_ops ops ([], [])) ! i \<in> set (fst (run_ops ops ([], [])))
         \<and> snd (run_ops ops ([], [])) ! j \<in> set (fst (run_ops ops ([], [])))"
    apply (rule exI [of _ ?ops])
    apply (rule exI [of _ 1])
    apply (rule exI [of _ 2])
    apply (simp only: run)
    using ne same by simp
  have first: "fst (create items item) = items @ [snd (create items item)]
   \<and> snd (create items item) = item(''id'' \<mapsto> JNum (int (length items) + 1))
   \<and> get_field (snd (create items item)) ''id'' = JNum (int (length items) + 1)"
    by (simp add: create_eq get_field_def)
  from first collide show ?thesis by blast
qed

text \<open>
  C4. \<^verbatim>\<open>remove\<close> keeps, in order, exactly the entities whose identifier differs from
  the given one, so none with that identifier is left; it returns true exactly when the
  collection got shorter, which is exactly when some entity had the identifier; and
  afterwards \<^verbatim>\<open>findOne\<close> with that identifier finds nothing.
\<close>

theorem remove_then_findOne:
  "fst (remove items ident) = filter (\<lambda>item. \<not> id_is ident item) items
   \<and> (\<forall>item \<in> set (fst (remove items ident)). \<not> id_is ident item)
   \<and> snd (remove items ident) = (length (fst (remove items ident)) < length items)
   \<and> snd (remove items ident) = (\<exists>item \<in> set items. id_is ident item)
   \<and> findOne (fst (remove items ident)) ident = None"
proof -
  have shrank: "(length (filter (\<lambda>item. \<not> id_is ident item) items) < length items)
      = (\<exists>item \<in> set items. id_is ident item)"
  proof
    assume "length (filter (\<lambda>item. \<not> id_is ident item) items) < length items"
    then have "filter (\<lambda>item. \<not> id_is ident item) items \<noteq> items" by auto
    then show "\<exists>item \<in> set items. id_is ident item"
      by (auto simp: filter_id_conv)
  next
    assume "\<exists>item \<in> set items. id_is ident item"
    then show "length (filter (\<lambda>item. \<not> id_is ident item) items) < length items"
      by (auto intro: length_filter_less)
  qed
  have gone: "find (id_is ident) (filter (\<lambda>item. \<not> id_is ident item) items) = None"
    by (simp add: find_None_iff)
  show ?thesis
    using shrank gone by (simp add: remove_eq findOne_def)
qed

theorem remove_then_findOne_witness:
  "remove [[''id'' \<mapsto> JNum 1, ''name'' \<mapsto> JStr ''a''], [''id'' \<mapsto> JNum 2]] (JNum 1)
     = ([[''id'' \<mapsto> JNum 2]], True)
   \<and> findOne [[''id'' \<mapsto> JNum 2]] (JNum 1) = None"
  using remove_then_findOne
    [of "[[''id'' \<mapsto> JNum 1, ''name'' \<mapsto> JStr ''a''], [''id'' \<mapsto> JNum 2]]" "JNum 1"]
  by (simp add: remove_eq findOne_def id_is_def strict_eq_def get_field_def)

section \<open>Update\<close>

text \<open>
  C3. If some stored entity has the identifier, \<^verbatim>\<open>update\<close> replaces the one the scan
  finds (the first with that identifier, at index \<open>i\<close>) by the merged entity \<open>m\<close> and
  returns \<open>m\<close>: every field present in the partial record reads in \<open>m\<close> as in the
  partial record, every other field reads as in the old entity, the fields of \<open>m\<close> are
  those of both, the collection keeps its length, \<open>m\<close> is at index \<open>i\<close>, and every
  other position is unchanged. If no stored entity has the identifier, \<^verbatim>\<open>update\<close>
  returns \<open>null\<close> and leaves the collection as it is; it has no failing branch.
\<close>

theorem update_shallow_merge:
  "((\<exists>item \<in> set items. id_is ident item) \<longrightarrow>
      (\<exists>i m. i < length items \<and> id_is ident (items ! i) \<and> (\<forall>j < i. \<not> id_is ident (items ! j))
         \<and> update items ident partial = (items[i := m], Some m)
         \<and> (\<forall>k \<in> own_keys partial. get_field m k = get_field partial k)
         \<and> (\<forall>k. k \<notin> own_keys partial \<longrightarrow> get_field m k = get_field (items ! i) k)
         \<and> own_keys m = own_keys (items ! i) \<union> own_keys partial
         \<and> length (fst (update items ident partial)) = length items
         \<and> fst (update items ident partial) ! i = m
         \<and> (\<forall>j < length items. j \<noteq> i \<longrightarrow> fst (update items ident partial) ! j = items ! j)))
   \<and> (\<not> (\<exists>item \<in> set items. id_is ident item) \<longrightarrow>
        update items ident partial = (items, None))"
proof (intro conjI impI)
  assume "\<exists>item \<in> set items. id_is ident item"
  then obtain i where i: "findIndex (id_is ident) items = Some i"
    using findIndex_None [of "id_is ident" items] by auto
  let ?m = "spread (items ! i) partial"
  have bounds: "i < length items" "id_is ident (items ! i)" "\<forall>j < i. \<not> id_is ident (items ! j)"
    using findIndex_Some [OF i] by auto
  have upd: "update items ident partial = (items[i := ?m], Some ?m)"
    by (rule update_found [OF i])
  have fields: "\<forall>k \<in> own_keys partial. get_field ?m k = get_field partial k"
    "\<forall>k. k \<notin> own_keys partial \<longrightarrow> get_field ?m k = get_field (items ! i) k"
    by (simp_all add: get_spread)
  have keys: "own_keys ?m = own_keys (items ! i) \<union> own_keys partial"
    by (rule own_keys_spread)
  have frame: "length (fst (update items ident partial)) = length items"
    "fst (update items ident partial) ! i = ?m"
    "\<forall>j < length items. j \<noteq> i \<longrightarrow> fst (update items ident partial) ! j = items ! j"
    using bounds(1) by (simp_all add: upd)
  show "\<exists>i m. i < length items \<and> id_is ident (items ! i) \<and> (\<forall>j < i. \<not> id_is ident (items ! j))
         \<and> update items ident partial = (items[i := m], Some m)
         \<and> (\<forall>k \<in> own_keys partial. get_field m k = get_field partial k)
         \<and> (\<forall>k. k \<notin> own_keys partial \<longrightarrow> get_field m k = get_field (items ! i) k)
         \<and> own_keys m = own_keys (items ! i) \<union> own_keys partial
         \<and> length (fst (update items ident partial)) = length items
         \<and> fst (update items ident partial) ! i = m
         \<and> (\<forall>j < length items. j \<noteq> i \<longrightarrow> fst (update items ident partial) ! j = items ! j)"
    using bounds upd fields keys frame by blast
next
  assume "\<not> (\<exists>item \<in> set items. id_is ident item)"
  then have "findIndex (id_is ident) items = None"
    by (simp add: findIndex_None)
  then show "update items ident partial = (items, None)"
    by (rule update_not_found)
qed

theorem update_shallow_merge_witness:
  "id_is (JNum 1) [''id'' \<mapsto> JNum 1, ''name'' \<mapsto> JStr ''a'', ''description'' \<mapsto> JStr ''d'']
   \<and> update [[''id'' \<mapsto> JNum 1, ''name'' \<mapsto> JStr ''a'', ''description'' \<mapsto> JStr ''d'']]
        (JNum 1) [''name'' \<mapsto> JStr ''z'']
      = ([[''id'' \<mapsto> JNum 1, ''name'' \<mapsto> JStr ''z'', ''description'' \<mapsto> JStr ''d'']],
         Some [''id'' \<mapsto> JNum 1, ''name'' \<mapsto> JStr ''z'', ''description'' \<mapsto> JStr ''d''])
   \<and> update [[''id'' \<mapsto> JNum 1, ''name'' \<mapsto> JStr ''a'', ''description'' \<mapsto> JStr ''d'']]
        (JNum 2) [''name'' \<mapsto> JStr ''z'']
      = ([[''id'' \<mapsto> JNum 1, ''name'' \<mapsto> JStr ''a'', ''description'' \<mapsto> JStr ''d'']], None)"
proof -
  let ?e = "[''id'' \<mapsto> JNum 1, ''name'' \<mapsto> JStr ''a'', ''description'' \<mapsto> JStr ''d'']"
  let ?p = "[''name'' \<mapsto> JStr ''z'']"
  have is1: "id_is (JNum 1) ?e" and not2: "\<not> id_is (JNum 2) ?e"
    by (simp_all add: id_is_def strict_eq_def get_field_def)
  have merged: "spread ?e ?p
      = [''id'' \<mapsto> JNum 1, ''name'' \<mapsto> JStr ''z'', ''description'' \<mapsto> JStr ''d'']"
    by (auto simp: spread_def fun_eq_iff)
  from is1 update_shallow_merge [of "[?e]" "JNum 1" ?p]
  obtain i m where im: "i < length [?e]" "update [?e] (JNum 1) ?p = ([?e][i := m], Some m)"
      "\<forall>k \<in> own_keys ?p. get_field m k = get_field ?p k"
      "\<forall>k. k \<notin> own_keys ?p \<longrightarrow> get_field m k = get_field ?e k"
      "own_keys m = own_keys ?e \<union> own_keys ?p"
    by auto
  have i0: "i = 0" using im(1) by simp
  have "m k = spread ?e ?p k" for k
  proof (cases "k \<in> own_keys ?p")
    case True
    with im(3,5) show ?thesis
      by (auto simp: own_keys_def get_field_def spread_def dom_def split: option.splits if_splits)
  next
    case False
    with im(4,5) have "get_field m k = get_field ?e k" "(k \<in> dom m) = (k \<in> dom ?e)"
      by (auto simp: own_keys_def)
    with False show ?thesis
      by (auto simp: own_keys_def get_field_def spread_def dom_def map_add_def
          split: option.splits if_splits)
  qed
  then have m: "m = spread ?e ?p" by (simp add: fun_eq_iff)
  have found: "update [?e] (JNum 1) ?p = ([spread ?e ?p], Some (spread ?e ?p))"
    using im(2) i0 m by simp
  have absent: "update [?e] (JNum 2) ?p = ([?e], None)"
    using not2 update_shallow_merge [of "[?e]" "JNum 2" ?p] by simp
  show ?thesis
    using is1 found absent by (simp only: merged) 
qed

text \<open>
  C10. The merge does not protect the identifier. Whenever some stored entity has the
  identifier and the partial record has an \<open>id\<close> property with value \<open>v\<close>, the entity
  that \<^verbatim>\<open>update\<close> stores at the index found, and returns, has the identifier \<open>v\<close>,
  its fields outside the partial record are those of the old entity, and the collection
  keeps its length; if moreover \<open>v\<close> is not strictly equal to the old identifier and no
  other stored entity has the old identifier, \<^verbatim>\<open>findOne\<close> with the old identifier
  finds nothing afterwards. Such a case exists: there are a collection, an identifier of a
  stored entity and a partial record with a different \<open>id\<close> value \<open>v\<close> for which the
  stored entity becomes the old one with \<open>id\<close> set to \<open>v\<close>, \<^verbatim>\<open>findOne\<close> with the old
  identifier finds nothing, and the length is unchanged.
\<close>

theorem update_overwrites_id:
  "((\<exists>item \<in> set items. id_is ident item) \<and> partial ''id'' = Some v \<longrightarrow>
      (\<exists>i. i < length items \<and> id_is ident (items ! i) \<and> (\<forall>j < i. \<not> id_is ident (items ! j))
         \<and> fst (update items ident partial) = items[i := spread (items ! i) partial]
         \<and> snd (update items ident partial) = Some (fst (update items ident partial) ! i)
         \<and> get_field (fst (update items ident partial) ! i) ''id'' = v
         \<and> (\<forall>k. k \<notin> own_keys partial \<longrightarrow>
               get_field (fst (update items ident partial) ! i) k = get_field (items ! i) k)
         \<and> length (fst (update items ident partial)) = length items
         \<and> (\<not> strict_eq v ident \<and> (\<forall>j < length items. j \<noteq> i \<longrightarrow> \<not> id_is ident (items ! j))
               \<longrightarrow> findOne (fst (update items ident partial)) ident = None)))
   \<and> (\<exists>items ident partial v.
         (\<exists>item \<in> set items. id_is ident item) \<and> partial ''id'' = Some v \<and> v \<noteq> ident
         \<and> (\<exists>i. i < length items \<and> id_is ident (items ! i)
               \<and> fst (update items ident partial) ! i = (items ! i)(''id'' \<mapsto> v)
               \<and> get_field (fst (update items ident partial) ! i) ''id'' = v
               \<and> snd (update items ident partial) = Some (fst (update items ident partial) ! i))
         \<and> findOne (fst (update items ident partial)) ident = None
         \<and> length (fst (update items ident partial)) = length items)"
proof (intro conjI impI)
  assume h: "(\<exists>item \<in> set items. id_is ident item) \<and> partial ''id'' = Some v"
  then obtain i where i: "findIndex (id_is ident) items = Some i"
    using findIndex_None [of "id_is ident" items] by auto
  let ?m = "spread (items ! i) partial"
  have bounds: "i < length items" "id_is ident (items ! i)" "\<forall>j < i. \<not> id_is ident (items ! j)"
    using findIndex_Some [OF i] by auto
  have upd: "update items ident partial = (items[i := ?m], Some ?m)"
    by (rule update_found [OF i])
  have stored: "fst (update items ident partial) ! i = ?m"
    using bounds(1) by (simp add: upd)
  have pv: "partial ''id'' = Some v"
    using h by simp
  have idv: "get_field ?m ''id'' = v"
    by (simp add: get_field_def spread_def pv)
  have others: "\<forall>k. k \<notin> own_keys partial \<longrightarrow> get_field ?m k = get_field (items ! i) k"
    by (simp add: get_spread)
  have gone: "findOne (fst (update items ident partial)) ident = None"
    if "\<not> strict_eq v ident \<and> (\<forall>j < length items. j \<noteq> i \<longrightarrow> \<not> id_is ident (items ! j))"
  proof -
    have "\<not> id_is ident (items[i := ?m] ! j)" if "j < length items" for j
    proof (cases "j = i")
      case True
      with bounds(1) idv \<open>\<not> strict_eq v ident \<and> _\<close> show ?thesis
        by (simp add: id_is_def)
    next
      case False
      with that \<open>\<not> strict_eq v ident \<and> _\<close> show ?thesis by simp
    qed
    then show ?thesis by (simp add: findOne_None upd)
  qed
  show "\<exists>i. i < length items \<and> id_is ident (items ! i) \<and> (\<forall>j < i. \<not> id_is ident (items ! j))
         \<and> fst (update items ident partial) = items[i := spread (items ! i) partial]
         \<and> snd (update items ident partial) = Some (fst (update items ident partial) ! i)
         \<and> get_field (fst (update items ident partial) ! i) ''id'' = v
         \<and> (\<forall>k. k \<notin> own_keys partial \<longrightarrow>
               get_field (fst (update items ident partial) ! i) k = get_field (items ! i) k)
         \<and> length (fst (update items ident partial)) = length items
         \<and> (\<not> strict_eq v ident \<and> (\<forall>j < length items. j \<noteq> i \<longrightarrow> \<not> id_is ident (items ! j))
               \<longrightarrow> findOne (fst (update items ident partial)) ident = None)"
    apply (rule exI [of _ i])
    using bounds gone idv others by (simp add: stored) (simp add: upd)
next
  let ?e = "[''id'' \<mapsto> JNum 1, ''name'' \<mapsto> JStr ''a'']"
  let ?p = "[''id'' \<mapsto> JNum 5]"
  have upd: "update [?e] (JNum 1) ?p = ([?e(''id'' \<mapsto> JNum 5)], Some (?e(''id'' \<mapsto> JNum 5)))"
    by (simp add: update_def Let_def id_is_def strict_eq_def get_field_def spread_def)
  show "\<exists>items ident partial v.
         (\<exists>item \<in> set items. id_is ident item) \<and> partial ''id'' = Some v \<and> v \<noteq> ident
         \<and> (\<exists>i. i < length items \<and> id_is ident (items ! i)
               \<and> fst (update items ident partial) ! i = (items ! i)(''id'' \<mapsto> v)
               \<and> get_field (fst (update items ident partial) ! i) ''id'' = v
               \<and> snd (update items ident partial) = Some (fst (update items ident partial) ! i))
         \<and> findOne (fst (update items ident partial)) ident = None
         \<and> length (fst (update items ident partial)) = length items"
    apply (rule exI [of _ "[?e]"])
    apply (rule exI [of _ "JNum 1"])
    apply (rule exI [of _ ?p])
    apply (rule exI [of _ "JNum 5"])
    apply (simp only: upd)
    apply (simp add: findOne_def id_is_def strict_eq_def get_field_def)
    done
qed

theorem update_overwrites_id_witness:
  "id_is (JNum 1) [''id'' \<mapsto> JNum 1, ''name'' \<mapsto> JStr ''a'']
   \<and> get_field (fst (update [[''id'' \<mapsto> JNum 1, ''name'' \<mapsto> JStr ''a'']] (JNum 1) [''id'' \<mapsto> JNum 5]) ! 0)
        ''id'' = JNum 5
   \<and> get_field (fst (update [[''id'' \<mapsto> JNum 1, ''name'' \<mapsto> JStr ''a'']] (JNum 1) [''id'' \<mapsto> JNum 5]) ! 0)
        ''name'' = JStr ''a''
   \<and> findOne (fst (update [[''id'' \<mapsto> JNum 1, ''name'' \<mapsto> JStr ''a'']] (JNum 1) [''id'' \<mapsto> JNum 5]))
        (JNum 1) = None
   \<and> length (fst (update [[''id'' \<mapsto> JNum 1, ''name'' \<mapsto> JStr ''a'']] (JNum 1) [''id'' \<mapsto> JNum 5])) = 1"
proof -
  let ?e = "[''id'' \<mapsto> JNum 1, ''name'' \<mapsto> JStr ''a'']"
  let ?p = "[''id'' \<mapsto> JNum 5]"
  let ?s = "fst (update [?e] (JNum 1) ?p)"
  have is1: "id_is (JNum 1) ?e"
    by (simp add: id_is_def strict_eq_def get_field_def)
  have pre: "(\<exists>item \<in> set [?e]. id_is (JNum 1) item) \<and> ?p ''id'' = Some (JNum 5)"
    using is1 by simp
  from update_overwrites_id [of "[?e]" "JNum 1" ?p "JNum 5"] pre
  obtain i where i: "i < length [?e]"
      "get_field (?s ! i) ''id'' = JNum 5"
      "\<forall>k. k \<notin> own_keys ?p \<longrightarrow> get_field (?s ! i) k = get_field (?e) k"
      "length ?s = length [?e]"
      "\<not> strict_eq (JNum 5) (JNum 1) \<and> (\<forall>j < length [?e]. j \<noteq> i \<longrightarrow> \<not> id_is (JNum 1) ([?e] ! j))
         \<longrightarrow> findOne ?s (JNum 1) = None"
    by auto
  have i0: "i = 0" using i(1) by simp
  have name: "get_field (?s ! 0) ''name'' = JStr ''a''"
    using i(3) i0 by (simp add: own_keys_def get_field_def)
  have gone: "findOne ?s (JNum 1) = None"
    using i(5) i0 by (simp add: strict_eq_def)
  from is1 i(2) i(4) i0 name gone show ?thesis by simp
qed

section \<open>Credentials\<close>

lemma findByUsername_None:
  "(findByUsername users uname = None) = (\<not> (\<exists>u \<in> set users. username u = uname))"
  by (auto simp: findByUsername_def find_None_iff)

lemma findByUsername_Some:
  "findByUsername users uname = Some u \<Longrightarrow> u \<in> set users \<and> username u = uname"
  by (auto simp: findByUsername_def find_Some_iff)

lemma register_eq:
  "register hash new_id users uname pw =
     (if \<exists>u \<in> set users. username u = uname then Inl DuplicateKey
      else Inr (users @ [\<lparr>user_id = new_id, username = uname, password = hash pw 10\<rparr>],
                \<lparr>user_id = new_id, username = uname, password = hash pw 10\<rparr>))"
  by (simp add: register_def users_create_def save_def Let_def)


text \<open>
  C5. \<^verbatim>\<open>validateUser\<close> fails closed. If no stored user has the username it returns
  \<open>null\<close>; it has no failing branch. If one has, the lookup finds a stored user \<open>u\<close>
  with that username, and then: if the secret does not compare equal to the stored hash of
  \<open>u\<close> the result is \<open>null\<close>; if it does, the result is the plain object of \<open>u\<close>
  without the \<open>password\<close> property, every other property as stored.
\<close>

theorem validateUser_fails_closed:
  "(\<not> (\<exists>u \<in> set users. username u = uname) \<longrightarrow> validateUser compare users uname pw = None)
   \<and> ((\<exists>u \<in> set users. username u = uname) \<longrightarrow> (\<exists>u. findByUsername users uname = Some u))
   \<and> (\<forall>u. findByUsername users uname = Some u \<longrightarrow>
         u \<in> set users \<and> username u = uname
         \<and> (\<not> compare pw (password u) \<longrightarrow> validateUser compare users uname pw = None)
         \<and> (compare pw (password u) \<longrightarrow>
              (\<exists>r. validateUser compare users uname pw = Some r
                 \<and> ''password'' \<notin> own_keys r
                 \<and> get_field r ''password'' = JUndefined
                 \<and> (\<forall>k. k \<noteq> ''password'' \<longrightarrow> r k = toObject u k)
                 \<and> get_field r ''_id'' = JStr (user_id u)
                 \<and> get_field r ''username'' = JStr uname)))"
proof (intro conjI impI allI)
  assume "\<not> (\<exists>u \<in> set users. username u = uname)"
  then have "findByUsername users uname = None"
    by (simp add: findByUsername_None)
  then show "validateUser compare users uname pw = None"
    by (simp add: validateUser_def)
next
  assume "\<exists>u \<in> set users. username u = uname"
  then have "findByUsername users uname \<noteq> None"
    by (simp add: findByUsername_None)
  then show "\<exists>u. findByUsername users uname = Some u" by auto
next
  fix u assume "findByUsername users uname = Some u"
  then show "u \<in> set users" by (simp add: findByUsername_Some)
next
  fix u assume "findByUsername users uname = Some u"
  then show "username u = uname" by (simp add: findByUsername_Some)
next
  fix u assume "findByUsername users uname = Some u" "\<not> compare pw (password u)"
  then show "validateUser compare users uname pw = None"
    by (simp add: validateUser_def)
next
  fix u assume u: "findByUsername users uname = Some u" and ok: "compare pw (password u)"
  let ?r = "omit_field ''password'' (toObject u)"
  have res: "validateUser compare users uname pw = Some ?r"
    using u ok by (simp add: validateUser_def)
  have name: "username u = uname"
    using u by (simp add: findByUsername_Some)
  have "''password'' \<notin> own_keys ?r" "get_field ?r ''password'' = JUndefined"
    "\<forall>k. k \<noteq> ''password'' \<longrightarrow> ?r k = toObject u k"
    "get_field ?r ''_id'' = JStr (user_id u)" "get_field ?r ''username'' = JStr uname"
    using name by (simp_all add: omit_field_def own_keys_def get_field_def toObject_def)
  with res show "\<exists>r. validateUser compare users uname pw = Some r
                 \<and> ''password'' \<notin> own_keys r
                 \<and> get_field r ''password'' = JUndefined
                 \<and> (\<forall>k. k \<noteq> ''password'' \<longrightarrow> r k = toObject u k)
                 \<and> get_field r ''_id'' = JStr (user_id u)
                 \<and> get_field r ''username'' = JStr uname"
    by blast
qed

theorem validateUser_fails_closed_witness:
  "findByUsername [\<lparr>user_id = ''u1'', username = ''ram'', password = ''#1234''\<rparr>] ''ram''
     = Some \<lparr>user_id = ''u1'', username = ''ram'', password = ''#1234''\<rparr>
   \<and> (\<exists>r. validateUser (\<lambda>p h. h = ''#'' @ p)
              [\<lparr>user_id = ''u1'', username = ''ram'', password = ''#1234''\<rparr>] ''ram'' ''1234''
            = Some r
          \<and> ''password'' \<notin> own_keys r \<and> get_field r ''username'' = JStr ''ram'')
   \<and> validateUser (\<lambda>p h. h = ''#'' @ p)
        [\<lparr>user_id = ''u1'', username = ''ram'', password = ''#1234''\<rparr>] ''ram'' ''0000'' = None
   \<and> validateUser (\<lambda>p h. h = ''#'' @ p)
        [\<lparr>user_id = ''u1'', username = ''ram'', password = ''#1234''\<rparr>] ''sita'' ''1234'' = None"
proof -
  let ?u = "\<lparr>user_id = ''u1'', username = ''ram'', password = ''#1234''\<rparr>"
  let ?cmp = "\<lambda>p h. h = ''#'' @ p"
  have found: "findByUsername [?u] ''ram'' = Some ?u"
    by (simp add: findByUsername_def)
  have match: "\<exists>r. validateUser ?cmp [?u] ''ram'' ''1234'' = Some r
          \<and> ''password'' \<notin> own_keys r \<and> get_field r ''username'' = JStr ''ram''"
    using found validateUser_fails_closed [of "[?u]" "''ram''" ?cmp "''1234''"] by auto
  have wrong: "validateUser ?cmp [?u] ''ram'' ''0000'' = None"
    using found validateUser_fails_closed [of "[?u]" "''ram''" ?cmp "''0000''"] by auto
  have absent: "validateUser ?cmp [?u] ''sita'' ''1234'' = None"
    using validateUser_fails_closed [of "[?u]" "''sita''" ?cmp "''1234''"] by simp
  from found match wrong absent show ?thesis by blast
qed




text \<open>
  C6 does not hold of the code. For the registration of ram with the secret 1234 in an
  empty store, the body of the response is the saved document as it is: it has a
  \<open>password\<close> property, and that property holds the stored hash.
\<close>

theorem register_route_returns_hash:
  "register_route hash new_id [] ''ram'' ''1234''
     = Inr ([\<lparr>user_id = new_id, username = ''ram'', password = hash ''1234'' 10\<rparr>],
            toObject \<lparr>user_id = new_id, username = ''ram'', password = hash ''1234'' 10\<rparr>)
   \<and> ''password'' \<in> own_keys
         (toObject \<lparr>user_id = new_id, username = ''ram'', password = hash ''1234'' 10\<rparr>)
   \<and> get_field (toObject \<lparr>user_id = new_id, username = ''ram'', password = hash ''1234'' 10\<rparr>)
         ''password'' = JStr (hash ''1234'' 10)"
  by (simp add: register_route_def register_eq toObject_def own_keys_def get_field_def)

section \<open>Issuing and verifying tokens\<close>

lemma sign_eq:
  "sign mac secret expiresIn now claims =
     \<lparr>payload = claims(''iat'' \<mapsto> JNum now, ''exp'' \<mapsto> JNum (now + expiresIn)),
      signature = mac secret (claims(''iat'' \<mapsto> JNum now, ''exp'' \<mapsto> JNum (now + expiresIn)))\<rparr>"
  by (simp add: sign_def Let_def set_field_def)

lemma verify_sign:
  "verify mac secret now (sign mac secret expiresIn t0 claims) =
     (if now < t0 + expiresIn
      then Some (claims(''iat'' \<mapsto> JNum t0, ''exp'' \<mapsto> JNum (t0 + expiresIn)))
      else None)"
  by (simp add: verify_def sign_eq get_field_def)

lemma verify_bad_signature:
  "signature tok \<noteq> mac secret (payload tok) \<Longrightarrow> verify mac secret now tok = None"
  by (simp add: verify_def)

text \<open>
  C9. For every claims object, key and horizon, a token signed at time \<open>t0\<close> verifies at
  every time before \<open>t0\<close> plus the horizon and yields the claims it was signed with (next
  to the two time stamps); from that time on verification fails; and verification fails
  for every token whose signature is not the one the key gives for its claims. For the
  guide's own wiring (the same key in the module and in the strategy, a horizon of one
  hour): within the hour the guard recovers the subject identifier and the username of the
  user that logged in, afterwards it rejects, and it rejects every token whose signature
  does not verify.
\<close>

theorem token_round_trip:
  "(now < t0 + expiresIn \<longrightarrow>
      (\<exists>p. verify mac secret now (sign mac secret expiresIn t0 claims) = Some p
         \<and> (\<forall>k. k \<noteq> ''iat'' \<and> k \<noteq> ''exp'' \<longrightarrow> p k = claims k)))
   \<and> (t0 + expiresIn \<le> now \<longrightarrow>
        verify mac secret now (sign mac secret expiresIn t0 claims) = None)
   \<and> (signature tok \<noteq> mac secret (payload tok) \<longrightarrow> verify mac secret now tok = None)
   \<and> (now < t0 + 3600 \<longrightarrow>
        jwt_guard mac now (access_token (login mac t0 u))
          = Some [''userId'' \<mapsto> get_field u ''_id'', ''username'' \<mapsto> get_field u ''username''])
   \<and> (t0 + 3600 \<le> now \<longrightarrow> jwt_guard mac now (access_token (login mac t0 u)) = None)
   \<and> (signature tok \<noteq> mac ''jwt_secret'' (payload tok) \<longrightarrow> jwt_guard mac now tok = None)"
proof (intro conjI impI)
  assume "now < t0 + expiresIn"
  then show "\<exists>p. verify mac secret now (sign mac secret expiresIn t0 claims) = Some p
         \<and> (\<forall>k. k \<noteq> ''iat'' \<and> k \<noteq> ''exp'' \<longrightarrow> p k = claims k)"
    by (simp add: verify_sign)
next
  assume "t0 + expiresIn \<le> now"
  then show "verify mac secret now (sign mac secret expiresIn t0 claims) = None"
    by (simp add: verify_sign)
next
  assume "signature tok \<noteq> mac secret (payload tok)"
  then show "verify mac secret now tok = None"
    by (rule verify_bad_signature)
next
  assume "now < t0 + 3600"
  then show "jwt_guard mac now (access_token (login mac t0 u))
          = Some [''userId'' \<mapsto> get_field u ''_id'', ''username'' \<mapsto> get_field u ''username'']"
    by (simp add: jwt_guard_def login_def Let_def verify_sign validate_def get_field_def)
next
  assume "t0 + 3600 \<le> now"
  then show "jwt_guard mac now (access_token (login mac t0 u)) = None"
    by (simp add: jwt_guard_def login_def Let_def verify_sign)
next
  assume "signature tok \<noteq> mac ''jwt_secret'' (payload tok)"
  then show "jwt_guard mac now tok = None"
    by (simp add: jwt_guard_def verify_bad_signature)
qed

theorem token_round_trip_witness:
  "jwt_guard (\<lambda>key body. (key, body ''sub'', body ''exp'')) 1000
       (access_token (login (\<lambda>key body. (key, body ''sub'', body ''exp'')) 0
          [''_id'' \<mapsto> JStr ''u1'', ''username'' \<mapsto> JStr ''ram'']))
     = Some [''userId'' \<mapsto> JStr ''u1'', ''username'' \<mapsto> JStr ''ram'']
   \<and> jwt_guard (\<lambda>key body. (key, body ''sub'', body ''exp'')) 3600
       (access_token (login (\<lambda>key body. (key, body ''sub'', body ''exp'')) 0
          [''_id'' \<mapsto> JStr ''u1'', ''username'' \<mapsto> JStr ''ram''])) = None
   \<and> jwt_guard (\<lambda>key body. (key, body ''sub'', body ''exp'')) 1000
       \<lparr>payload = [''sub'' \<mapsto> JStr ''u2'', ''exp'' \<mapsto> JNum 3600],
        signature = (''jwt_secret'', Some (JStr ''u1''), Some (JNum 3600))\<rparr> = None"
proof -
  let ?mac = "\<lambda>key body. (key, body ''sub'', body ''exp'') :: string \<times> jsval option \<times> jsval option"
  let ?u = "[''_id'' \<mapsto> JStr ''u1'', ''username'' \<mapsto> JStr ''ram'']"
  let ?forged = "\<lparr>payload = [''sub'' \<mapsto> JStr ''u2'', ''exp'' \<mapsto> JNum 3600],
        signature = (''jwt_secret'', Some (JStr ''u1''), Some (JNum 3600))\<rparr>"
  have fresh: "jwt_guard ?mac 1000 (access_token (login ?mac 0 ?u))
      = Some [''userId'' \<mapsto> JStr ''u1'', ''username'' \<mapsto> JStr ''ram'']"
    using token_round_trip [of 1000 0 3600 ?mac "''jwt_secret''" Map.empty ?forged ?u]
    by (simp add: get_field_def)
  have expired: "jwt_guard ?mac 3600 (access_token (login ?mac 0 ?u)) = None"
    using token_round_trip [of 3600 0 3600 ?mac "''jwt_secret''" Map.empty ?forged ?u]
    by simp
  have tampered: "jwt_guard ?mac 1000 ?forged = None"
    using token_round_trip [of 1000 0 3600 ?mac "''jwt_secret''" Map.empty ?forged ?u]
    by simp
  from fresh expired tampered show ?thesis by blast
qed

end
